theory Spec2Isabelle
  imports Complex_Main "HOL-Library.Word"
begin

section \<open>Data model (src/types.ts)\<close>

text \<open>
  The string enum \<open>Language\<close> of \<open>types.ts\<close>; \<open>Language_value\<close> gives the string each
  member stands for (it is what a template literal interpolates).
\<close>

datatype Language = AUTO | ENGLISH | CHINESE

fun Language_value :: "Language \<Rightarrow> string" where
  "Language_value AUTO = ''Auto Detect''"
| "Language_value ENGLISH = ''English''"
| "Language_value CHINESE = ''Chinese (Simplified)''"

text \<open>
  \<open>Object.values(Language)\<close> lists the members in declaration order.
\<close>

definition Language_values :: "Language list" where
  "Language_values = [AUTO, ENGLISH, CHINESE]"

text \<open>
  A JavaScript string is a sequence of UTF-16 code units. The texts the user types and the
  translations are kept as such; the literals of the source are ASCII and are written as
  HOL strings, \<open>utf16\<close> turning one into code units.
\<close>

type_synonym jsstring = "16 word list"

definition utf16 :: "string \<Rightarrow> jsstring" where
  "utf16 s = map (\<lambda>c. of_nat (of_char c)) s"

text \<open>
  \<open>String.prototype.trim\<close> removes the code units of ECMAScript's WhiteSpace and
  LineTerminator productions from both ends.
\<close>

definition isWhiteSpace :: "16 word \<Rightarrow> bool" where
  "isWhiteSpace c \<longleftrightarrow>
     c \<in> set [0x0009, 0x000A, 0x000B, 0x000C, 0x000D, 0x0020, 0x00A0, 0x1680,
              0x2028, 0x2029, 0x202F, 0x205F, 0x3000, 0xFEFF]
     \<or> (0x2000 \<le> c \<and> c \<le> 0x200A)"

definition trim :: "jsstring \<Rightarrow> jsstring" where
  "trim s = rev (dropWhile isWhiteSpace (rev (dropWhile isWhiteSpace s)))"

text \<open>The interface \<open>TranslationState\<close>; \<open>error\<close> is \<open>string | null\<close>.\<close>

record TranslationState =
  sourceLang :: Language
  targetLang :: Language
  inputText :: jsstring
  outputText :: jsstring
  isTranslating :: bool
  error :: "string option"

section \<open>Session handlers (src/App.tsx)\<close>

text \<open>
  The handlers of \<open>App\<close> read \<open>state\<close>, the state of the render they were created in, and
  update through \<open>setState(prev => ...)\<close>. React renders again after every update and
  before the next event is handled, so \<open>state\<close> and \<open>prev\<close> are the same value when a handler
  runs; each handler is therefore a function of the one current state.
\<close>

definition initialState :: TranslationState where
  "initialState = \<lparr> sourceLang = AUTO, targetLang = ENGLISH, inputText = [],
                     outputText = [], isTranslating = False, error = None \<rparr>"

definition handleSwapLanguages :: "TranslationState \<Rightarrow> TranslationState" where
  "handleSwapLanguages prev =
     (if sourceLang prev = AUTO
      then prev\<lparr> sourceLang := targetLang prev,
                 targetLang := ENGLISH,
                 inputText := outputText prev,
                 outputText := inputText prev \<rparr>
      else prev\<lparr> sourceLang := targetLang prev,
                 targetLang := sourceLang prev,
                 inputText := outputText prev,
                 outputText := inputText prev \<rparr>)"

definition handleClear :: "TranslationState \<Rightarrow> TranslationState" where
  "handleClear prev = prev\<lparr> inputText := [], outputText := [], error := None \<rparr>"

text \<open>
  \<open>handlePaste\<close>: \<open>navigator.clipboard.readText()\<close> either yields the clipboard's text, which
  becomes the input, or fails, which is only logged.
\<close>

definition handlePaste :: "'e + jsstring \<Rightarrow> TranslationState \<Rightarrow> TranslationState" where
  "handlePaste clipboard prev =
     (case clipboard of
        Inr text \<Rightarrow> prev\<lparr> inputText := text \<rparr>
      | Inl err \<Rightarrow> prev)"

text \<open>The option lists handed to the two \<open>LanguageSelector\<close>s.\<close>

definition sourceOptions :: "Language list" where
  "sourceOptions = Language_values"

definition targetOptions :: "Language list" where
  "targetOptions = filter (\<lambda>l. l \<noteq> AUTO) Language_values"

section \<open>The translation service (geminiService)\<close>

text \<open>
  The request \<open>translateText\<close> hands to \<open>ai.models.generateContent\<close>. The Gemini client is
  not part of the repository: it is a parameter, a function from the request to either a
  failure of type \<open>'e\<close> (a rejected promise) or a response, of which only \<open>response.text\<close>
  is read and may be undefined.
\<close>

record request =
  model :: string
  contents :: jsstring
  systemInstruction :: string
  temperature :: real

datatype Error = Error string

definition getSystemInstruction :: "Language \<Rightarrow> string" where
  "getSystemInstruction target =
     ''You are a professional, world-class translator. \<newline>'' @
     ''  Your task is to accurately translate the provided text into '' @
     Language_value target @ ''. \<newline>'' @
     ''  Maintain the original tone, nuance, formatting, and style of the source text. \<newline>'' @
     ''  If the input is technical, use appropriate terminology. \<newline>'' @
     ''  Do not include any explanations, just the translated text.''"

text \<open>The prompt and the request built inside the \<open>try\<close> block of \<open>translateText\<close>.\<close>

definition translateText_request :: "jsstring \<Rightarrow> Language \<Rightarrow> Language \<Rightarrow> request" where
  "translateText_request text source target =
     (let prompt =
        (if source = AUTO
         then utf16 (''Translate the following text to '' @ Language_value target @
                     '':\<newline>\<newline>'') @ text
         else utf16 (''Translate the following text from '' @ Language_value source @
                     '' to '' @ Language_value target @ '':\<newline>\<newline>'') @ text)
      in \<lparr> model = ''gemini-3-flash-preview'', contents = prompt,
           systemInstruction = getSystemInstruction target, temperature = 3 / 10 \<rparr>)"

text \<open>
  \<open>translateText\<close> returns the requests it sent to the client together with its outcome:
  \<open>Inr\<close> the string the promise resolves to, \<open>Inl\<close> the \<open>Error\<close> it rejects with.
\<close>

definition translateText ::
  "(request \<Rightarrow> 'e + jsstring option) \<Rightarrow> jsstring \<Rightarrow> Language \<Rightarrow> Language
     \<Rightarrow> request list \<times> (Error + jsstring)" where
  "translateText generateContent text source target =
     (if trim text = [] then ([], Inr [])
      else
        let req = translateText_request text source target in
        case generateContent req of
          Inr response \<Rightarrow>
            ([req], Inr (case response of Some t \<Rightarrow> t | None \<Rightarrow> []))
        | Inl err \<Rightarrow>
            ([req], Inl (Error ''Failed to translate text. Please try again.'')))"

section \<open>The translate handler and the session over time\<close>

text \<open>
  \<open>handleTranslate\<close> is asynchronous. It runs up to \<open>await translateText(...)\<close> when the
  button is clicked, and its continuation runs when the promise settles; other handlers
  may run in between. The state of the application over time is the session, the promises
  of \<open>translateText\<close> that have not been delivered yet (each with its outcome), the calls of
  \<open>translateText\<close> made so far and the requests sent to the client so far.
\<close>

record app =
  session :: TranslationState
  pending :: "(Error + jsstring) list"
  calls :: "(jsstring \<times> Language \<times> Language) list"
  requests :: "request list"

definition initialApp :: app where
  "initialApp = \<lparr> session = initialState, pending = [], calls = [], requests = [] \<rparr>"

text \<open>The part of \<open>handleTranslate\<close> before the \<open>await\<close>.\<close>

definition handleTranslate_call ::
  "(request \<Rightarrow> 'e + jsstring option) \<Rightarrow> app \<Rightarrow> app" where
  "handleTranslate_call generateContent a =
     (let state = session a in
      if trim (inputText state) = [] then a
      else
        let (sent, outcome) =
              translateText generateContent (inputText state) (sourceLang state)
                (targetLang state)
        in a\<lparr> session := state\<lparr> isTranslating := True, error := None \<rparr>,
               pending := pending a @ [outcome],
               calls := calls a @ [(inputText state, sourceLang state, targetLang state)],
               requests := requests a @ sent \<rparr>)"

text \<open>The part after the \<open>await\<close>: the \<open>try\<close> continuation or the \<open>catch\<close> block.\<close>

definition translationFailedMessage :: string where
  "translationFailedMessage =
     ''Translation failed. Please check your connection and try again.''"

definition handleTranslate_settled ::
  "Error + jsstring \<Rightarrow> TranslationState \<Rightarrow> TranslationState" where
  "handleTranslate_settled outcome prev =
     (case outcome of
        Inr result \<Rightarrow> prev\<lparr> outputText := result, isTranslating := False \<rparr>
      | Inl err \<Rightarrow> prev\<lparr> isTranslating := False, error := Some translationFailedMessage \<rparr>)"

text \<open>
  The events of the session: the clicks and edits of the user and the settling of the
  \<open>k\<close>-th outstanding promise. Copying to the clipboard and exporting do not touch the
  state and are left out.
\<close>

datatype 'e event =
    ClickTranslate
  | Settle nat
  | ClickSwap
  | ClickClear
  | ClickPaste "'e + jsstring"
  | ChangeInput jsstring
  | SelectSource Language
  | SelectTarget Language

fun fire :: "(request \<Rightarrow> 'e + jsstring option) \<Rightarrow> app \<Rightarrow> 'e event \<Rightarrow> app" where
  "fire g a ClickTranslate = handleTranslate_call g a"
| "fire g a (Settle k) =
     (if k < length (pending a)
      then a\<lparr> session := handleTranslate_settled (pending a ! k) (session a),
               pending := take k (pending a) @ drop (Suc k) (pending a) \<rparr>
      else a)"
| "fire g a ClickSwap = a\<lparr> session := handleSwapLanguages (session a) \<rparr>"
| "fire g a ClickClear = a\<lparr> session := handleClear (session a) \<rparr>"
| "fire g a (ClickPaste clipboard) = a\<lparr> session := handlePaste clipboard (session a) \<rparr>"
| "fire g a (ChangeInput text) = a\<lparr> session := (session a)\<lparr> inputText := text \<rparr> \<rparr>"
| "fire g a (SelectSource l) = a\<lparr> session := (session a)\<lparr> sourceLang := l \<rparr> \<rparr>"
| "fire g a (SelectTarget l) = a\<lparr> session := (session a)\<lparr> targetLang := l \<rparr> \<rparr>"

text \<open>
  A \<open>select\<close> element can only report one of the options it was given, so the two
  selectors offer the members of \<open>sourceOptions\<close> and \<open>targetOptions\<close>; every other event can
  happen at any time.
\<close>

fun offered :: "'e event \<Rightarrow> bool" where
  "offered (SelectSource l) = (l \<in> set sourceOptions)"
| "offered (SelectTarget l) = (l \<in> set targetOptions)"
| "offered _ = True"

definition run :: "(request \<Rightarrow> 'e + jsstring option) \<Rightarrow> app \<Rightarrow> 'e event list \<Rightarrow> app" where
  "run g a es = foldl (fire g) a es"

inductive reachable :: "(request \<Rightarrow> 'e + jsstring option) \<Rightarrow> app \<Rightarrow> bool"
  for g :: "request \<Rightarrow> 'e + jsstring option" where
  initial: "reachable g initialApp"
| fired: "reachable g a \<Longrightarrow> offered e \<Longrightarrow> reachable g (fire g a e)"

section \<open>PDF export (src/App.tsx)\<close>

text \<open>
  \<open>html2canvas\<close> and \<open>jsPDF\<close> are libraries, not code of the repository. The captured
  canvas is known by its pixel size; a document is the list of its pages, each the list of
  the drawing calls made on it. \<open>new jsPDF\<close> starts with one empty page and every drawing
  call goes to the last page; only \<open>addPage\<close>, which the source never calls, would add one.
  JavaScript's numbers are taken as exact reals.
\<close>

record canvas =
  width :: nat
  height :: nat

datatype draw =
    SetFontSize real
  | SetTextColor real
  | Text string real real
  | AddImage canvas real real real real

type_synonym jsPDF = "draw list list"

definition jsPDF_new :: jsPDF where
  "jsPDF_new = [Nil]"

definition onPage :: "draw \<Rightarrow> jsPDF \<Rightarrow> jsPDF" where
  "onPage d pdf = butlast pdf @ [last pdf @ [d]]"

datatype exported = NoExport | Saved string jsPDF | ExportFailed

text \<open>
  \<open>imgHeight\<close> of \<open>handleExportPDF\<close>, the height of the capture once it is as wide as the page
  between its margins. For a canvas of width 0 the JavaScript quotient is \<open>Infinity\<close> or
  \<open>NaN\<close>, which a real number does not render: the properties below are about canvases of
  positive width.
\<close>

definition imgHeight :: "canvas \<Rightarrow> real \<Rightarrow> real" where
  "imgHeight cv pdfWidth = (real (height cv) * (pdfWidth - 20)) / real (width cv)"

text \<open>
  \<open>handleExportPDF\<close>, given \<open>outputRef.current\<close> (null when the output region is not
  mounted), \<open>html2canvas\<close> (which may reject) and the page size jsPDF reports. The result is
  the document handed to \<open>pdf.save\<close>, or \<open>ExportFailed\<close> for the \<open>catch\<close> block with its alert,
  or \<open>NoExport\<close> for the early return. The calls on the document are taken to succeed.
\<close>

definition handleExportPDF ::
  "TranslationState \<Rightarrow> 'el option \<Rightarrow> ('el \<Rightarrow> 'x + canvas) \<Rightarrow> real \<Rightarrow> real \<Rightarrow> exported" where
  "handleExportPDF state outputRef html2canvas pdfWidth pdfHeight =
     (if outputText state = [] then NoExport
      else case outputRef of
        None \<Rightarrow> NoExport
      | Some element \<Rightarrow>
          (case html2canvas element of
             Inl err \<Rightarrow> ExportFailed
           | Inr cv \<Rightarrow>
               let imgWidth = pdfWidth - 20;
                   imgH = imgHeight cv pdfWidth;
                   pdf = jsPDF_new;
                   pdf = onPage (SetFontSize 18) pdf;
                   pdf = onPage (Text ''Translation Result'' 10 15) pdf;
                   pdf = onPage (SetFontSize 10) pdf;
                   pdf = onPage (SetTextColor 100) pdf;
                   pdf = onPage (Text (''Source: '' @ Language_value (sourceLang state) @
                                       '' | Target: '' @ Language_value (targetLang state))
                                  10 22) pdf;
                   yPos = 30;
                   pdf = (if imgH > pdfHeight - 40
                          then let ratio = (pdfHeight - 40) / imgH
                               in onPage (AddImage cv 10 yPos (imgWidth * ratio)
                                            (pdfHeight - 40)) pdf
                          else onPage (AddImage cv 10 yPos imgWidth imgH) pdf)
               in Saved ''gemini-translation.pdf'' pdf))"

text \<open>Reading a result: the pages of the saved document and the images placed on a page.\<close>

fun savedPages :: "exported \<Rightarrow> draw list list" where
  "savedPages (Saved name pdf) = pdf"
| "savedPages _ = []"

fun isImage :: "draw \<Rightarrow> bool" where
  "isImage (AddImage cv x y w h) = True"
| "isImage _ = False"

section \<open>Concrete sessions used as examples\<close>

definition replySalut :: "request \<Rightarrow> unit + jsstring option" where
  "replySalut r = Inr (Some (utf16 ''salut''))"

definition replyFailure :: "request \<Rightarrow> unit + jsstring option" where
  "replyFailure r = Inl ()"

definition typedHi :: app where
  "typedHi = run replySalut initialApp [ChangeInput (utf16 ''hi'')]"

definition shownSalut :: app where
  "shownSalut = run replySalut initialApp
     [ChangeInput (utf16 ''hi''), ClickTranslate, Settle 0, SelectSource CHINESE]"

lemmas example_defs =
  replySalut_def replyFailure_def typedHi_def shownSalut_def run_def initialApp_def
  initialState_def handleTranslate_call_def translateText_def trim_def isWhiteSpace_def
  utf16_def handleClear_def handleSwapLanguages_def handleTranslate_settled_def

section \<open>Auxiliary facts\<close>

lemma dropWhile_all: "(\<forall>x\<in>set (dropWhile P s). P x) \<longleftrightarrow> (\<forall>x\<in>set s. P x)"
proof
  assume h: "\<forall>x\<in>set (dropWhile P s). P x"
  show "\<forall>x\<in>set s. P x"
  proof
    fix x assume "x \<in> set s"
    then have "x \<in> set (takeWhile P s @ dropWhile P s)" by simp
    then have "x \<in> set (takeWhile P s) \<or> x \<in> set (dropWhile P s)"
      by (simp only: set_append Un_iff)
    then show "P x" using h by (auto dest: set_takeWhileD)
  qed
next
  assume "\<forall>x\<in>set s. P x"
  then show "\<forall>x\<in>set (dropWhile P s). P x" by (auto dest: set_dropWhileD)
qed

lemma trim_blank_iff: "trim s = [] \<longleftrightarrow> (\<forall>c\<in>set s. isWhiteSpace c)"
  by (simp add: trim_def dropWhile_all)

lemma fire_keeps_target:
  assumes "targetLang (session a) \<noteq> AUTO" and "offered e"
  shows "targetLang (session (fire g a e)) \<noteq> AUTO"
  using assms
  by (cases e)
     (auto simp: handleTranslate_call_def handleTranslate_settled_def handleSwapLanguages_def
        handleClear_def handlePaste_def targetOptions_def Language_values_def Let_def
        split: sum.splits prod.splits)

lemma reachable_run: "reachable g a \<Longrightarrow> list_all offered es \<Longrightarrow> reachable g (run g a es)"
  unfolding run_def by (induction es arbitrary: a) (auto intro: reachable.fired)

lemma reachable_target: "reachable g a \<Longrightarrow> targetLang (session a) \<noteq> AUTO"
proof (induction rule: reachable.induct)
  case initial
  show ?case by (simp add: initialApp_def initialState_def)
next
  case (fired a e)
  then show ?case by (simp add: fire_keeps_target)
qed

lemma translate_failure_run:
  assumes "trim (inputText (session a)) \<noteq> []"
    and "g (translateText_request (inputText (session a)) (sourceLang (session a))
              (targetLang (session a))) = Inl e"
  shows "session (run g a [ClickTranslate, Settle (length (pending a))]) =
           (session a)\<lparr> isTranslating := False, error := Some translationFailedMessage \<rparr>"
  using assms
  by (simp add: run_def handleTranslate_call_def translateText_def handleTranslate_settled_def
        Let_def)

lemma exported_overflow:
  assumes "outputText state \<noteq> []" and "html2canvas element = Inr cv"
    and "imgHeight cv pdfWidth > pdfHeight - 40"
  shows "handleExportPDF state (Some element) html2canvas pdfWidth pdfHeight =
           Saved ''gemini-translation.pdf''
             [ [SetFontSize 18, Text ''Translation Result'' 10 15, SetFontSize 10,
               SetTextColor 100,
               Text (''Source: '' @ Language_value (sourceLang state) @ '' | Target: '' @
                     Language_value (targetLang state)) 10 22,
               AddImage cv 10 30
                 ((pdfWidth - 20) * ((pdfHeight - 40) / imgHeight cv pdfWidth))
                 (pdfHeight - 40)] ]"
  using assms by (simp add: handleExportPDF_def jsPDF_new_def onPage_def)

section \<open>Properties\<close>

text \<open>
  C8. \<open>handleClear\<close> empties \<open>inputText\<close> and \<open>outputText\<close> and sets \<open>error\<close> to null; the two
  languages and the remaining field \<open>isTranslating\<close> keep their values.
\<close>

theorem handleClear_frame:
  "inputText (handleClear s) = [] \<and> outputText (handleClear s) = [] \<and>
   error (handleClear s) = None \<and>
   sourceLang (handleClear s) = sourceLang s \<and>
   targetLang (handleClear s) = targetLang s \<and>
   isTranslating (handleClear s) = isTranslating s"
  by (simp add: handleClear_def)

text \<open>
  C4. When the input is empty or consists of white space only, clicking translate changes
  nothing: the session keeps every field, no promise is outstanding that was not before, and
  neither \<open>translateText\<close> nor the client is called. \<open>translateText\<close> has the same guard of its
  own and sends nothing for such a text.
\<close>

theorem handleTranslate_blank_noop:
  assumes "\<forall>c\<in>set (inputText (session a)). isWhiteSpace c"
  shows "fire g a ClickTranslate = a \<and>
         translateText g (inputText (session a)) source target = ([], Inr [])"
  using assms by (simp add: handleTranslate_call_def translateText_def trim_blank_iff)

theorem handleTranslate_blank_noop_witness:
  "isWhiteSpace 0x20 \<and> isWhiteSpace 0x09 \<and> isWhiteSpace 0xA0 \<and>
   inputText (session (fire replySalut initialApp (ChangeInput [0x20, 0x09, 0xA0]))) =
     [0x20, 0x09, 0xA0] \<and>
   fire replySalut (fire replySalut initialApp (ChangeInput [0x20, 0x09, 0xA0])) ClickTranslate
     = fire replySalut initialApp (ChangeInput [0x20, 0x09, 0xA0]) \<and>
   calls (fire replySalut (fire replySalut initialApp (ChangeInput [0x20, 0x09, 0xA0]))
            ClickTranslate) = []"
  using handleTranslate_blank_noop
    [of "fire replySalut initialApp (ChangeInput [0x20, 0x09, 0xA0])" replySalut AUTO ENGLISH]
  by (simp add: isWhiteSpace_def initialApp_def)

text \<open>
  C5. In every state the application can reach, if the source language is not
  \<open>AUTO\<close> then swapping twice gives back the source language, the target language, the input
  and the output (and with them the whole state).
\<close>

theorem handleSwapLanguages_involution:
  assumes "reachable g a" and "sourceLang (session a) \<noteq> AUTO"
  shows "sourceLang (handleSwapLanguages (handleSwapLanguages (session a))) = sourceLang (session a) \<and>
         targetLang (handleSwapLanguages (handleSwapLanguages (session a))) = targetLang (session a) \<and>
         inputText (handleSwapLanguages (handleSwapLanguages (session a))) = inputText (session a) \<and>
         outputText (handleSwapLanguages (handleSwapLanguages (session a))) = outputText (session a) \<and>
         session (run g a [ClickSwap, ClickSwap]) = session a"
  using assms(2) reachable_target [OF assms(1)]
  by (simp add: handleSwapLanguages_def run_def)

theorem handleSwapLanguages_involution_witness:
  "reachable replySalut shownSalut \<and>
   sourceLang (session shownSalut) \<noteq> AUTO \<and>
   outputText (session shownSalut) = utf16 ''salut'' \<and>
   session (run replySalut shownSalut [ClickSwap, ClickSwap]) = session shownSalut"
proof -
  have r: "reachable replySalut shownSalut"
    unfolding shownSalut_def
    by (rule reachable_run [OF reachable.initial])
       (simp add: sourceOptions_def Language_values_def)
  have s: "sourceLang (session shownSalut) \<noteq> AUTO"
    by (simp add: example_defs)
  have o: "outputText (session shownSalut) = utf16 ''salut''"
    by (simp add: example_defs)
  show ?thesis
    using handleSwapLanguages_involution [OF r s] r s o by simp
qed

text \<open>
  C6. \<open>targetLang\<close> is never \<open>AUTO\<close>: it is not in the initial state, no event that can
  happen makes it so, hence it is not in any reachable state. Swapping when the source is
  \<open>AUTO\<close> makes the old target the source and \<open>ENGLISH\<close> the target, and the target
  selector does not offer \<open>AUTO\<close>, so no event assigns it.
\<close>

theorem targetLang_never_AUTO:
  "(reachable g a \<longrightarrow> targetLang (session a) \<noteq> AUTO) \<and>
   (targetLang (session a) \<noteq> AUTO \<and> offered e \<longrightarrow> targetLang (session (fire g a e)) \<noteq> AUTO) \<and>
   (sourceLang s = AUTO \<longrightarrow>
      sourceLang (handleSwapLanguages s) = targetLang s \<and>
      targetLang (handleSwapLanguages s) = ENGLISH) \<and>
   AUTO \<notin> set targetOptions \<and> \<not> offered (SelectTarget AUTO :: 'e event)"
  by (simp add: reachable_target fire_keeps_target handleSwapLanguages_def targetOptions_def
        Language_values_def)

theorem targetLang_never_AUTO_witness:
  "reachable replySalut (run replySalut initialApp [SelectTarget CHINESE, ClickSwap]) \<and>
   offered (ClickSwap :: unit event) \<and>
   sourceLang (session (run replySalut initialApp [SelectTarget CHINESE])) = AUTO \<and>
   sourceLang (session (run replySalut initialApp [SelectTarget CHINESE, ClickSwap])) = CHINESE \<and>
   targetLang (session (run replySalut initialApp [SelectTarget CHINESE, ClickSwap])) = ENGLISH \<and>
   targetLang (session (run replySalut initialApp [SelectTarget CHINESE, ClickSwap])) \<noteq> AUTO"
proof -
  have r: "reachable replySalut (run replySalut initialApp [SelectTarget CHINESE, ClickSwap])"
    by (rule reachable_run [OF reachable.initial])
       (simp add: targetOptions_def Language_values_def)
  show ?thesis
    using r targetLang_never_AUTO
      [of replySalut "run replySalut initialApp [SelectTarget CHINESE]" ClickSwap
          "session (run replySalut initialApp [SelectTarget CHINESE])"]
    by (simp add: example_defs)
qed

text \<open>
  C10. From a state whose source is \<open>AUTO\<close> and whose target is \<open>ENGLISH\<close>, as the
  initial state is, swapping gives a state whose source and target are both \<open>ENGLISH\<close>.
\<close>

theorem handleSwapLanguages_same_language:
  assumes "sourceLang s = AUTO" and "targetLang s = ENGLISH"
  shows "sourceLang (handleSwapLanguages s) = ENGLISH \<and>
         targetLang (handleSwapLanguages s) = ENGLISH"
  using assms by (simp add: handleSwapLanguages_def)

theorem handleSwapLanguages_same_language_witness:
  "sourceLang initialState = AUTO \<and> targetLang initialState = ENGLISH \<and>
   sourceLang (handleSwapLanguages initialState) = ENGLISH \<and>
   targetLang (handleSwapLanguages initialState) = ENGLISH"
  using handleSwapLanguages_same_language [of initialState]
  by (simp add: initialState_def)

text \<open>
  C7. When the input is not blank and the client fails on the request, whatever the
  failure \<open>e\<close> is, the session after the call has settled is not translating and its
  \<open>error\<close> is the fixed message \<open>translationFailedMessage\<close>. \<open>translateText\<close> rejects with a
  fixed message of its own, and the \<open>catch\<close> block of \<open>handleTranslate\<close> ignores what it
  caught: whatever state the rejection finds, it stores the same message.
\<close>

theorem translate_failure_message:
  assumes "trim (inputText (session a)) \<noteq> []"
    and "g (translateText_request (inputText (session a)) (sourceLang (session a))
              (targetLang (session a))) = Inl e"
  shows "isTranslating (session (run g a [ClickTranslate, Settle (length (pending a))])) = False \<and>
         error (session (run g a [ClickTranslate, Settle (length (pending a))])) =
           Some ''Translation failed. Please check your connection and try again.'' \<and>
         snd (translateText g (inputText (session a)) (sourceLang (session a))
                (targetLang (session a))) =
           Inl (Error ''Failed to translate text. Please try again.'') \<and>
         error (handleTranslate_settled (Inl err) cur) = Some translationFailedMessage \<and>
         isTranslating (handleTranslate_settled (Inl err) cur) = False"
  using assms translate_failure_run [where a = a and g = g and e = e, OF assms]
  by (simp add: translateText_def handleTranslate_settled_def translationFailedMessage_def)

theorem translate_failure_message_witness:
  "trim (inputText (session typedHi)) \<noteq> [] \<and>
   replyFailure (translateText_request (inputText (session typedHi))
      (sourceLang (session typedHi)) (targetLang (session typedHi))) = Inl () \<and>
   isTranslating (session (run replyFailure typedHi [ClickTranslate, Settle 0])) = False \<and>
   error (session (run replyFailure typedHi [ClickTranslate, Settle 0])) =
     Some ''Translation failed. Please check your connection and try again.''"
proof -
  have t: "trim (inputText (session typedHi)) \<noteq> []"
    by (simp add: example_defs)
  have f: "replyFailure (translateText_request (inputText (session typedHi))
      (sourceLang (session typedHi)) (targetLang (session typedHi))) = Inl ()"
    by (simp add: replyFailure_def)
  have p: "length (pending typedHi) = 0"
    by (simp add: example_defs)
  show ?thesis
    using translate_failure_message
            [where a = typedHi and g = replyFailure and e = "()", OF t f] t f p
    by simp
qed

text \<open>
  C9. When the input is not blank and the client fails on the request, \<open>outputText\<close> after
  the call has settled is what it was before the call; and whatever state a rejection
  finds, it leaves \<open>outputText\<close> as it finds it.
\<close>

theorem translate_failure_keeps_output:
  assumes "trim (inputText (session a)) \<noteq> []"
    and "g (translateText_request (inputText (session a)) (sourceLang (session a))
              (targetLang (session a))) = Inl e"
  shows "outputText (session (run g a [ClickTranslate, Settle (length (pending a))])) =
           outputText (session a) \<and>
         outputText (handleTranslate_settled (Inl err) cur) = outputText cur"
  using translate_failure_run [where a = a and g = g and e = e, OF assms]
  by (simp add: handleTranslate_settled_def)

theorem translate_failure_keeps_output_witness:
  "trim (inputText (session shownSalut)) \<noteq> [] \<and>
   replyFailure (translateText_request (inputText (session shownSalut))
      (sourceLang (session shownSalut)) (targetLang (session shownSalut))) = Inl () \<and>
   outputText (session shownSalut) = utf16 ''salut'' \<and>
   outputText (session (run replyFailure shownSalut [ClickTranslate, Settle 0])) =
     utf16 ''salut'' \<and>
   error (session (run replyFailure shownSalut [ClickTranslate, Settle 0])) \<noteq> None"
proof -
  have t: "trim (inputText (session shownSalut)) \<noteq> []"
    by (simp add: example_defs)
  have f: "replyFailure (translateText_request (inputText (session shownSalut))
      (sourceLang (session shownSalut)) (targetLang (session shownSalut))) = Inl ()"
    by (simp add: replyFailure_def)
  have p: "length (pending shownSalut) = 0"
    by (simp add: example_defs)
  have o: "outputText (session shownSalut) = utf16 ''salut''"
    by (simp add: example_defs)
  have e: "error (session (run replyFailure shownSalut [ClickTranslate, Settle 0])) \<noteq> None"
    using translate_failure_run [where a = shownSalut and g = replyFailure and e = "()", OF t f] p
    by simp
  show ?thesis
    using translate_failure_keeps_output
            [where a = shownSalut and g = replyFailure and e = "()", OF t f] t f p o e
    by simp
qed

text \<open>
  C2, as the code has it. \<open>handleTranslate\<close> does not look at \<open>isTranslating\<close>: a click
  while a translation is outstanding, with an input that is not blank, is handled like any
  other. It calls \<open>translateText\<close> once more, which sends one more request, one more promise
  is outstanding, and the session is set to translating with no error again.
\<close>

theorem handleTranslate_while_translating:
  assumes "isTranslating (session a)" and "trim (inputText (session a)) \<noteq> []"
  shows "calls (fire g a ClickTranslate) =
           calls a @ [(inputText (session a), sourceLang (session a), targetLang (session a))] \<and>
         requests (fire g a ClickTranslate) =
           requests a @ [translateText_request (inputText (session a))
                           (sourceLang (session a)) (targetLang (session a))] \<and>
         length (pending (fire g a ClickTranslate)) = Suc (length (pending a)) \<and>
         session (fire g a ClickTranslate) =
           (session a)\<lparr> isTranslating := True, error := None \<rparr>"
  using assms
  by (simp add: handleTranslate_call_def translateText_def Let_def split: sum.splits)

theorem handleTranslate_while_translating_witness:
  "isTranslating (session (run replySalut typedHi [ClickTranslate])) \<and>
   trim (inputText (session (run replySalut typedHi [ClickTranslate]))) \<noteq> [] \<and>
   length (pending (run replySalut typedHi [ClickTranslate])) = 1 \<and>
   length (pending (fire replySalut (run replySalut typedHi [ClickTranslate]) ClickTranslate))
     = 2"
proof -
  have i: "isTranslating (session (run replySalut typedHi [ClickTranslate]))"
    by (simp add: example_defs)
  have t: "trim (inputText (session (run replySalut typedHi [ClickTranslate]))) \<noteq> []"
    by (simp add: example_defs)
  have p: "length (pending (run replySalut typedHi [ClickTranslate])) = 1"
    by (simp add: example_defs)
  show ?thesis
    using handleTranslate_while_translating
            [where a = "run replySalut typedHi [ClickTranslate]" and g = replySalut, OF i t]
          i t p
    by simp
qed

text \<open>
  C2 fails as stated: after ``hi'' is typed and translate is clicked twice, the second click
  finds the session translating and is not refused; \<open>translateText\<close> has been called twice,
  two requests have been sent and two promises are outstanding.
\<close>

theorem translate_twice_counterexample:
  "isTranslating (session (run replySalut initialApp
       [ChangeInput (utf16 ''hi''), ClickTranslate])) \<and>
   length (calls (run replySalut initialApp
       [ChangeInput (utf16 ''hi''), ClickTranslate, ClickTranslate])) = 2 \<and>
   length (requests (run replySalut initialApp
       [ChangeInput (utf16 ''hi''), ClickTranslate, ClickTranslate])) = 2 \<and>
   \<not> length (pending (run replySalut initialApp
       [ChangeInput (utf16 ''hi''), ClickTranslate, ClickTranslate])) \<le> 1"
  by (simp add: example_defs)

text \<open>
  C3, as the code has it. Clearing or swapping leaves the outstanding promises alone and
  nothing marks them as superseded: when the \<open>k\<close>-th of them settles afterwards, its
  continuation is applied to the state that clearing or swapping produced. A result is
  stored in \<open>outputText\<close>, a failure stores the fixed message in \<open>error\<close>, and both end
  \<open>isTranslating\<close>.
\<close>

theorem late_response_applied:
  assumes "k < length (pending a)"
  shows "session (run g a [ClickClear, Settle k]) =
           handleTranslate_settled (pending a ! k) (handleClear (session a)) \<and>
         session (run g a [ClickSwap, Settle k]) =
           handleTranslate_settled (pending a ! k) (handleSwapLanguages (session a)) \<and>
         (pending a ! k = Inr result \<longrightarrow>
            session (run g a [ClickClear, Settle k]) =
              (handleClear (session a))\<lparr> outputText := result, isTranslating := False \<rparr> \<and>
            session (run g a [ClickSwap, Settle k]) =
              (handleSwapLanguages (session a))\<lparr> outputText := result, isTranslating := False \<rparr>) \<and>
         (pending a ! k = Inl err \<longrightarrow>
            session (run g a [ClickClear, Settle k]) =
              (handleClear (session a))\<lparr> isTranslating := False,
                                          error := Some translationFailedMessage \<rparr> \<and>
            session (run g a [ClickSwap, Settle k]) =
              (handleSwapLanguages (session a))\<lparr> isTranslating := False,
                                          error := Some translationFailedMessage \<rparr>)"
  using assms by (simp add: run_def handleTranslate_settled_def)

theorem late_response_applied_witness:
  "0 < length (pending (run replySalut typedHi [ClickTranslate])) \<and>
   pending (run replySalut typedHi [ClickTranslate]) ! 0 = Inr (utf16 ''salut'') \<and>
   session (run replySalut (run replySalut typedHi [ClickTranslate]) [ClickClear, Settle 0]) =
     (handleClear (session (run replySalut typedHi [ClickTranslate])))
       \<lparr> outputText := utf16 ''salut'', isTranslating := False \<rparr>"
proof -
  have l: "0 < length (pending (run replySalut typedHi [ClickTranslate]))"
    by (simp add: example_defs)
  have r: "pending (run replySalut typedHi [ClickTranslate]) ! 0 = Inr (utf16 ''salut'')"
    by (simp add: example_defs)
  show ?thesis
    using late_response_applied
            [where a = "run replySalut typedHi [ClickTranslate]" and g = replySalut and k = 0
               and result = "utf16 ''salut''", OF l]
          l r
    by (simp add: handleTranslate_settled_def)
qed

text \<open>
  C3 fails as stated: ``hi'' is typed, translate is clicked, the session is cleared, and then
  the response ``salut'' arrives. It is not discarded: the cleared session, whose input and
  output were empty, now shows ``salut'' as its output.
\<close>

theorem late_response_counterexample:
  "outputText (session (run replySalut initialApp
       [ChangeInput (utf16 ''hi''), ClickTranslate, ClickClear])) = [] \<and>
   outputText (session (run replySalut initialApp
       [ChangeInput (utf16 ''hi''), ClickTranslate, ClickClear, Settle 0])) = utf16 ''salut'' \<and>
   session (run replySalut initialApp
       [ChangeInput (utf16 ''hi''), ClickTranslate, ClickClear, Settle 0]) \<noteq>
   session (run replySalut initialApp
       [ChangeInput (utf16 ''hi''), ClickTranslate, ClickClear])"
  by (simp add: example_defs)

text \<open>
  C1, as the code has it. When the output is not empty, the capture succeeds on a canvas of
  positive size and the page is larger than its margins and header, a capture whose
  proportional height exceeds the content height \<open>pdfHeight - 40\<close> is not sliced: the saved
  document has one page, and that page carries the whole capture as one image at (10, 30),
  scaled down to the content height with its proportions kept.
\<close>

theorem handleExportPDF_overflow_one_page:
  assumes "outputText state \<noteq> []" and "html2canvas element = Inr cv"
    and "0 < width cv" and "20 < pdfWidth" and "40 < pdfHeight"
    and "imgHeight cv pdfWidth > pdfHeight - 40"
  shows "length (savedPages (handleExportPDF state (Some element) html2canvas pdfWidth pdfHeight)) = 1 \<and>
         filter isImage (concat (savedPages
             (handleExportPDF state (Some element) html2canvas pdfWidth pdfHeight))) =
           [AddImage cv 10 30 ((pdfWidth - 20) * ((pdfHeight - 40) / imgHeight cv pdfWidth))
              (pdfHeight - 40)] \<and>
         ((pdfWidth - 20) * ((pdfHeight - 40) / imgHeight cv pdfWidth)) * real (height cv) =
           (pdfHeight - 40) * real (width cv)"
proof -
  have pos: "0 < imgHeight cv pdfWidth"
    using assms(5,6) by simp
  then have h: "0 < real (height cv)"
    using assms(3,4) by (auto simp: imgHeight_def zero_less_divide_iff zero_less_mult_iff)
  have "(pdfWidth - 20) * ((pdfHeight - 40) / imgHeight cv pdfWidth) * real (height cv) =
        (pdfHeight - 40) * real (width cv)"
    using h assms(3,4) by (simp add: imgHeight_def field_simps)
  then show ?thesis
    using exported_overflow
            [where state = state and html2canvas = html2canvas and element = element
               and cv = cv and pdfWidth = pdfWidth and pdfHeight = pdfHeight, OF assms(1,2,6)]
    by simp
qed

theorem handleExportPDF_overflow_one_page_witness:
  "outputText (session shownSalut) \<noteq> [] \<and>
   (0::nat) < width \<lparr> width = 100, height = 1000 \<rparr> \<and>
   imgHeight \<lparr> width = 100, height = 1000 \<rparr> 210 > 297 - 40 \<and>
   filter isImage (concat (savedPages
       (handleExportPDF (session shownSalut) (Some ())
          (\<lambda>el. Inr \<lparr> width = 100, height = 1000 \<rparr> :: unit + canvas) 210 297))) =
     [AddImage \<lparr> width = 100, height = 1000 \<rparr> 10 30 (257 / 10) 257]"
proof -
  have o: "outputText (session shownSalut) \<noteq> []"
    by (simp add: example_defs)
  have c: "(\<lambda>el::unit. Inr \<lparr> width = 100, height = 1000 \<rparr> :: unit + canvas) () =
             Inr \<lparr> width = 100, height = 1000 \<rparr>"
    by simp
  have w: "(0::nat) < width \<lparr> width = 100, height = 1000 \<rparr>"
    by simp
  have i: "imgHeight \<lparr> width = 100, height = 1000 \<rparr> 210 > 297 - 40"
    by (simp add: imgHeight_def)
  have v: "imgHeight \<lparr> width = 100, height = 1000 \<rparr> 210 = 1900"
    by (simp add: imgHeight_def)
  show ?thesis
    using handleExportPDF_overflow_one_page
            [where state = "session shownSalut" and element = "()"
               and html2canvas = "\<lambda>el. Inr \<lparr> width = 100, height = 1000 \<rparr> :: unit + canvas"
               and cv = "\<lparr> width = 100, height = 1000 \<rparr>" and pdfWidth = 210
               and pdfHeight = 297, OF o c w _ _ i]
          o w i v
    by simp
qed

text \<open>
  C1 fails as stated: for a capture of 100 by 1000 pixels on an A4 page of 210 by 297 mm,
  the proportional height is 1900 against a content height of 257, which would make 8
  bands; the saved document has one page.
\<close>

theorem handleExportPDF_pages_counterexample:
  "imgHeight \<lparr> width = 100, height = 1000 \<rparr> 210 > 297 - 40 \<and>
   nat \<lceil>imgHeight \<lparr> width = 100, height = 1000 \<rparr> 210 / (297 - 40)\<rceil> = 8 \<and>
   length (savedPages
       (handleExportPDF (session shownSalut) (Some ())
          (\<lambda>el. Inr \<lparr> width = 100, height = 1000 \<rparr> :: unit + canvas) 210 297)) = 1"
  by (simp add: example_defs imgHeight_def handleExportPDF_def jsPDF_new_def onPage_def)

end
